theory Spec2Isabelle
  imports Complex_Main "HOL-Library.Sublist"
begin

section \<open>The T gate bloq of \<^verbatim>\<open>qualtran/bloqs/basic_gates/t_gate.py\<close>\<close>

text \<open>
  Conventions of the embedding.
  \<^item> Python \<^verbatim>\<open>str\<close> values are HOL strings holding the UTF-8 bytes of the text, so the
    dagger sign U+2020 of \<^verbatim>\<open>pretty_name\<close> is the three bytes \<open>0xE2 0x80 0xA0\<close>.
  \<^item> \<^verbatim>\<open>np.complex128\<close> entries are read as exact complex numbers; a 2-D array is the list
    of its rows.
  \<^item> A Python \<^verbatim>\<open>dict\<close> is a map; a failed subscript is the error value \<open>KeyError\<close>, a failed
    tuple unpacking is \<open>ValueError\<close>.
  \<^item> The tensor network mutated by \<^verbatim>\<open>add_my_tensors\<close> is passed in and returned.
\<close>

subsection \<open>Errors\<close>

datatype error = KeyError string | ValueError

subsection \<open>Arrays\<close>

type_synonym ndarray = "complex list list"

text \<open>\<^verbatim>\<open>ndarray.conj()\<close>: the entrywise complex conjugate.\<close>

definition ndarray_conj :: "ndarray \<Rightarrow> ndarray" where
  "ndarray_conj m = map (map cnj) m"

text \<open>\<^verbatim>\<open>ndarray.T\<close>: the transpose of a 2-D array.\<close>

definition ndarray_T :: "ndarray \<Rightarrow> ndarray" where
  "ndarray_T m = transpose m"

text \<open>\<^verbatim>\<open>_TMATRIX = np.array([[1, 0], [0, np.exp(1.0j * np.pi / 4.0)]], dtype=np.complex128)\<close>\<close>

definition TMATRIX :: ndarray where
  "TMATRIX = [[1, 0], [0, exp (\<i> * complex_of_real pi / 4)]]"

subsection \<open>Collaborators outside the file\<close>

text \<open>
  Modelled from the spec: the classes \<^verbatim>\<open>Register\<close> and \<^verbatim>\<open>Signature\<close> live in the package root,
  which is not part of the file. The spec describes a port signature as an ordered set of
  named registers, each with a bit-width.
\<close>

record Register =
  name :: string
  bitsize :: int

type_synonym Signature = "Register list"

text \<open>
  Modelled from the spec: \<^verbatim>\<open>Signature.build\<close> is not part of the file. The spec describes it
  as a registry-building call that, given a mapping from register name to bit-width,
  returns the signature with these registers; the keyword arguments are kept in the order
  they are written.
\<close>

definition Signature_build :: "(string \<times> int) list \<Rightarrow> Signature" where
  "Signature_build kwargs = map (\<lambda>(k, v). \<lparr>name = k, bitsize = v\<rparr>) kwargs"

text \<open>
  Modelled from the spec: \<^verbatim>\<open>TComplexity\<close> is declared in \<^verbatim>\<open>qualtran.cirq_interop\<close>, which is not
  part of the file; the spec describes it as a record counting occurrences of the
  non-Clifford primitive. Only the field \<^verbatim>\<open>t\<close> that the file sets is modelled.
\<close>

record TComplexity =
  t :: int

text \<open>\<^verbatim>\<open>qualtran.drawing.TextBox\<close>, a wire symbol holding a text.\<close>

datatype WireSymbol = TextBox string

text \<open>
  The tensor-network library: a tensor has data, a tuple of leg indices and a list of
  tags; a network is the list of its tensors and \<^verbatim>\<open>tn.add\<close> appends one. A tag is either a
  string chosen by the bloq or the caller's value.
\<close>

record ('s, 'g) Tensor =
  data :: ndarray
  inds :: "'s \<times> 's"
  tags :: "(string + 'g) list"

type_synonym ('s, 'g) TensorNetwork = "('s, 'g) Tensor list"

definition tn_add :: "('s, 'g) TensorNetwork \<Rightarrow> ('s, 'g) Tensor \<Rightarrow> ('s, 'g) TensorNetwork" where
  "tn_add tn x = tn @ [x]"

text \<open>
  The circuit library: \<^verbatim>\<open>cirq.T\<close> is a gate, calling a gate on qubits gives an operation, and
  \<^verbatim>\<open>cirq.inverse\<close> of a gate is its adjoint. The unitary of \<^verbatim>\<open>cirq.T\<close> is the matrix quoted in
  the class docstring of \<^verbatim>\<open>TGate\<close>.
\<close>

datatype cirq_Gate = cirq_T | cirq_inverse cirq_Gate

datatype 'q cirq_Operation = GateOperation cirq_Gate "'q list"

fun cirq_unitary :: "cirq_Gate \<Rightarrow> ndarray" where
  "cirq_unitary cirq_T = [[1, 0], [0, exp (\<i> * complex_of_real pi / 4)]]"
| "cirq_unitary (cirq_inverse g) = ndarray_T (ndarray_conj (cirq_unitary g))"

subsection \<open>The class \<^verbatim>\<open>TGate\<close>\<close>

record TGate =
  is_adjoint :: bool

text \<open>
  The constructor generated by \<^verbatim>\<open>@frozen\<close> for the field \<^verbatim>\<open>is_adjoint: bool = False\<close>: the
  argument may be left out, and the default is then \<open>False\<close>.
\<close>

definition TGate_init :: "bool option \<Rightarrow> TGate" where
  "TGate_init arg = \<lparr>is_adjoint = (case arg of None \<Rightarrow> False | Some b \<Rightarrow> b)\<rparr>"

definition signature :: "TGate \<Rightarrow> Signature" where
  "signature self = Signature_build [(''q'', 1)]"

definition t_complexity :: "TGate \<Rightarrow> TComplexity" where
  "t_complexity self = \<lparr>t = 1\<rparr>"

definition adjoint :: "TGate \<Rightarrow> TGate" where
  "adjoint self = self\<lparr>is_adjoint := \<not> is_adjoint self\<rparr>"

text \<open>The dagger sign U+2020 in UTF-8.\<close>

definition dagger :: string where
  "dagger = [CHR 0xE2, CHR 0x80, CHR 0xA0]"

definition pretty_name :: "TGate \<Rightarrow> string" where
  "pretty_name self = (let maybe_dag = (if is_adjoint self then dagger else '''') in ''T'' @ maybe_dag)"

definition str :: "TGate \<Rightarrow> string" where
  "str self = (let maybe_dag = (if is_adjoint self then ''is_adjoint=True'' else '''') in
     ''TGate('' @ maybe_dag @ '')'')"

text \<open>
  Modelled from the spec: \<^verbatim>\<open>short_name\<close> is inherited from the base class \<^verbatim>\<open>Bloq\<close>, which is not
  part of the file. The spec says that the first tag of the inserted tensor is the gate's
  display name.
\<close>

definition short_name :: "TGate \<Rightarrow> string" where
  "short_name self = pretty_name self"

text \<open>
  \<^verbatim>\<open>add_my_tensors\<close>: the arguments of \<^verbatim>\<open>qtn.Tensor\<close> are evaluated left to right, so
  \<^verbatim>\<open>outgoing['q']\<close> is looked up before \<^verbatim>\<open>incoming['q']\<close>, and both before \<^verbatim>\<open>tn.add\<close> runs. The
  result is the outcome of the call together with the network after it.
\<close>

definition add_my_tensors ::
  "TGate \<Rightarrow> ('s, 'g) TensorNetwork \<Rightarrow> 'g \<Rightarrow> (string \<rightharpoonup> 's) \<Rightarrow> (string \<rightharpoonup> 's)
    \<Rightarrow> (error + unit) \<times> ('s, 'g) TensorNetwork" where
  "add_my_tensors self tn tag incoming outgoing =
     (let d = (if is_adjoint self then ndarray_T (ndarray_conj TMATRIX) else TMATRIX) in
      case outgoing ''q'' of
        None \<Rightarrow> (Inl (KeyError ''q''), tn)
      | Some out_q \<Rightarrow>
          (case incoming ''q'' of
             None \<Rightarrow> (Inl (KeyError ''q''), tn)
           | Some in_q \<Rightarrow>
               (Inr (), tn_add tn \<lparr>data = d, inds = (out_q, in_q),
                                   tags = [Inl (short_name self), Inr tag]\<rparr>)))"

text \<open>
  \<^verbatim>\<open>as_cirq_op\<close>: the unpacking \<^verbatim>\<open>(q,) = q\<close> raises unless the collection has exactly one
  element; the qubit manager is not used.
\<close>

definition as_cirq_op ::
  "TGate \<Rightarrow> 'm \<Rightarrow> 'q list \<Rightarrow> error + ('q cirq_Operation \<times> (string \<rightharpoonup> 'q list))" where
  "as_cirq_op self qubit_manager q =
     (case q of
        [q0] \<Rightarrow> Inr (GateOperation cirq_T [q0], [''q'' \<mapsto> [q0]])
      | _ \<Rightarrow> Inl ValueError)"

definition wire_symbol :: "TGate \<Rightarrow> 'soq \<Rightarrow> WireSymbol" where
  "wire_symbol self soq = TextBox (pretty_name self)"

text \<open>The example factory \<^verbatim>\<open>_t_gate\<close>.\<close>

definition t_gate :: "unit \<Rightarrow> TGate" where
  "t_gate u = (let t_gate = TGate_init None in t_gate)"

section \<open>Properties\<close>

subsection \<open>Adjoint\<close>

text \<open>
  C2: for every boolean \<open>b\<close>, taking the adjoint twice of the descriptor built with
  \<open>is_adjoint = b\<close> gives a descriptor equal to the original, and one adjoint gives a
  descriptor whose flag is negated while the descriptor it was taken from still carries
  \<open>b\<close>.
\<close>

theorem adjoint_round_trip:
  "adjoint (adjoint (TGate_init (Some b))) = TGate_init (Some b)
   \<and> is_adjoint (adjoint (TGate_init (Some b))) = (\<not> b)
   \<and> adjoint (TGate_init (Some b)) = TGate_init (Some (\<not> b))
   \<and> is_adjoint (TGate_init (Some b)) = b"
  by (simp add: adjoint_def TGate_init_def)

subsection \<open>Default construction\<close>

text \<open>
  C10: constructing the descriptor with no argument gives the non-adjoint gate, equal to
  the descriptor constructed with \<open>is_adjoint = False\<close>, and the example factory returns
  this default instance.
\<close>

theorem default_is_not_adjoint:
  "TGate_init None = TGate_init (Some False)
   \<and> is_adjoint (TGate_init None) = False
   \<and> t_gate () = TGate_init None"
  by (simp add: TGate_init_def t_gate_def)

subsection \<open>Signature and cost\<close>

text \<open>
  C6: for every value of the flag, the signature holds exactly one register, named \<open>q\<close>,
  of bit-width 1, and it is the same signature for any two descriptors.
\<close>

theorem signature_single_q:
  "signature self = [\<lparr>name = ''q'', bitsize = 1\<rparr>]
   \<and> length (signature self) = 1
   \<and> signature (TGate_init (Some True)) = signature (TGate_init (Some False))"
  by (simp add: signature_def Signature_build_def)

text \<open>
  C5: for every value of the flag, the cost reporter counts exactly one T gate, and the
  cost of the adjoint descriptor equals the cost of the base descriptor.
\<close>

theorem t_complexity_one:
  "t (t_complexity self) = 1
   \<and> t_complexity (TGate_init (Some True)) = t_complexity (TGate_init (Some False))"
  by (simp add: t_complexity_def)

subsection \<open>Names\<close>

text \<open>
  C7: the display name is \<open>T\<close> for the base gate and \<open>T\<close> followed by the dagger sign
  (U+2020, as its UTF-8 bytes) for the adjoint.
\<close>

theorem pretty_name_dagger:
  "pretty_name self =
     (if is_adjoint self then ''T'' @ [CHR 0xE2, CHR 0x80, CHR 0xA0] else ''T'')"
  by (simp add: pretty_name_def dagger_def)

text \<open>
  C8: the diagnostic string contains the text \<open>is_adjoint=True\<close> exactly when the flag is
  set; when it is not set the string is \<open>TGate()\<close>, in which not even the text
  \<open>is_adjoint\<close> occurs, so there is no \<open>is_adjoint=False\<close> marker either.
\<close>

theorem str_adjoint_marker:
  "str self = (if is_adjoint self then ''TGate(is_adjoint=True)'' else ''TGate()'')
   \<and> sublist ''is_adjoint=True'' (str self) = is_adjoint self
   \<and> sublist ''is_adjoint'' (str self) = is_adjoint self
   \<and> \<not> sublist ''is_adjoint=False'' (str self)"
  by (simp add: str_def sublist_Cons_right)

subsection \<open>Tensor embedding\<close>

lemma cnj_exp_quarter:
  "cnj (exp (\<i> * complex_of_real pi / 4)) = exp (- \<i> * complex_of_real pi / 4)"
  by (simp add: complex_eq_iff Re_exp Im_exp)

lemma exp_quarter_neq:
  "exp (\<i> * complex_of_real pi / 4) \<noteq> exp (- \<i> * complex_of_real pi / 4)"
proof
  assume "exp (\<i> * complex_of_real pi / 4) = exp (- \<i> * complex_of_real pi / 4)"
  then have "Im (exp (\<i> * complex_of_real pi / 4)) = Im (exp (- \<i> * complex_of_real pi / 4))"
    by simp
  then show False
    by (simp add: Im_exp sin_45)
qed

lemma TMATRIX_conj_T:
  "ndarray_T (ndarray_conj TMATRIX) = [[1, 0], [0, exp (- \<i> * complex_of_real pi / 4)]]"
  using cnj_exp_quarter by (simp add: ndarray_T_def ndarray_conj_def TMATRIX_def)

lemma add_my_tensors_complete:
  assumes "outgoing ''q'' = Some out_q" and "incoming ''q'' = Some in_q"
  shows "add_my_tensors self tn tag incoming outgoing =
    (Inr (), tn @ [\<lparr>data = (if is_adjoint self then ndarray_T (ndarray_conj TMATRIX) else TMATRIX),
                     inds = (out_q, in_q),
                     tags = [Inl (short_name self), Inr tag]\<rparr>])"
  using assms by (simp add: add_my_tensors_def tn_add_def)

text \<open>
  C3: when both mappings have an entry for \<open>q\<close>, the call succeeds and appends exactly one
  tensor to the network; its data is the base matrix \<open>[[1, 0], [0, e^{i\<pi>/4}]]\<close> when the
  flag is not set and the conjugate transpose \<open>[[1, 0], [0, e^{-i\<pi>/4}]]\<close> when it is.
\<close>

theorem add_my_tensors_data:
  assumes "outgoing ''q'' = Some out_q" and "incoming ''q'' = Some in_q"
  shows "\<exists>x. add_my_tensors self tn tag incoming outgoing = (Inr (), tn @ [x])
    \<and> data x = (if is_adjoint self
                 then [[1, 0], [0, exp (- \<i> * complex_of_real pi / 4)]]
                 else [[1, 0], [0, exp (\<i> * complex_of_real pi / 4)]])"
proof (cases "is_adjoint self")
  case True
  then show ?thesis
    using add_my_tensors_complete [of outgoing out_q incoming in_q self tn tag] assms TMATRIX_conj_T by simp
next
  case False
  then show ?thesis
    using add_my_tensors_complete [of outgoing out_q incoming in_q self tn tag] assms by (simp add: TMATRIX_def)
qed

theorem add_my_tensors_data_witness:
  "[''q'' \<mapsto> (2::nat)] ''q'' = Some 2 \<and> [''q'' \<mapsto> (1::nat)] ''q'' = Some 1
   \<and> (\<exists>x. add_my_tensors \<lparr>is_adjoint = True\<rparr> [] (0::nat) [''q'' \<mapsto> (1::nat)] [''q'' \<mapsto> 2]
            = (Inr (), [] @ [x])
        \<and> data x = [[1, 0], [0, exp (- \<i> * complex_of_real pi / 4)]])"
  using add_my_tensors_data [where outgoing = "[''q'' \<mapsto> (2::nat)]" and out_q = 2
      and incoming = "[''q'' \<mapsto> (1::nat)]" and in_q = 1
      and self = "\<lparr>is_adjoint = True\<rparr>" and tn = "[]" and tag = "0::nat"]
  by simp

text \<open>
  C4: when both mappings have an entry for \<open>q\<close>, the legs of the one inserted tensor are
  the outgoing leg of \<open>q\<close> followed by the incoming leg of \<open>q\<close>.
\<close>

theorem add_my_tensors_inds:
  assumes "outgoing ''q'' = Some out_q" and "incoming ''q'' = Some in_q"
  shows "\<exists>x. add_my_tensors self tn tag incoming outgoing = (Inr (), tn @ [x])
    \<and> inds x = (out_q, in_q)"
  using add_my_tensors_complete [of outgoing out_q incoming in_q self tn tag] assms by simp

theorem add_my_tensors_inds_witness:
  "[''q'' \<mapsto> (7::nat)] ''q'' = Some 7 \<and> [''q'' \<mapsto> (3::nat)] ''q'' = Some 3
   \<and> (\<exists>x. add_my_tensors \<lparr>is_adjoint = False\<rparr> [] ''tag'' [''q'' \<mapsto> (3::nat)] [''q'' \<mapsto> 7]
            = (Inr (), [] @ [x])
        \<and> inds x = (7, 3))"
  using add_my_tensors_inds [where outgoing = "[''q'' \<mapsto> (7::nat)]" and out_q = 7
      and incoming = "[''q'' \<mapsto> (3::nat)]" and in_q = 3
      and self = "\<lparr>is_adjoint = False\<rparr>" and tn = "[]" and tag = "''tag''"]
  by simp

text \<open>
  C9: when the incoming or the outgoing mapping has no entry for \<open>q\<close>, the call fails
  with a lookup error and the network is returned as it was passed in.
\<close>

theorem add_my_tensors_missing_key:
  assumes "incoming ''q'' = None \<or> outgoing ''q'' = None"
  shows "add_my_tensors self tn tag incoming outgoing = (Inl (KeyError ''q''), tn)"
  using assms by (auto simp: add_my_tensors_def split: option.splits)

theorem add_my_tensors_missing_key_witness:
  "((Map.empty :: string \<rightharpoonup> nat) ''q'' = None \<or> [''q'' \<mapsto> (7::nat)] ''q'' = None)
   \<and> add_my_tensors \<lparr>is_adjoint = True\<rparr>
        [\<lparr>data = TMATRIX, inds = (5::nat, 4), tags = [Inl ''T'', Inr (0::nat)]\<rparr>] 1
        Map.empty [''q'' \<mapsto> 7]
      = (Inl (KeyError ''q''),
         [\<lparr>data = TMATRIX, inds = (5, 4), tags = [Inl ''T'', Inr 0]\<rparr>])"
  using add_my_tensors_missing_key [where incoming = "Map.empty :: string \<rightharpoonup> nat"
      and outgoing = "[''q'' \<mapsto> (7::nat)]" and self = "\<lparr>is_adjoint = True\<rparr>"
      and tn = "[\<lparr>data = TMATRIX, inds = (5::nat, 4), tags = [Inl ''T'', Inr (0::nat)]\<rparr>]"
      and tag = "1::nat"]
  by simp

subsection \<open>Translation to the circuit library\<close>

text \<open>
  C1: called with the one-element collection \<open>[q0]\<close>, the translator returns the register
  mapping \<open>{"q": [q0]}\<close>, but the operation it returns for the adjoint descriptor is
  \<^verbatim>\<open>cirq.T\<close> on \<open>q0\<close>, the same as for the base descriptor; the unitary of that operation is
  not the conjugate transpose that the tensor embedding uses for the adjoint descriptor.
\<close>

theorem as_cirq_op_ignores_is_adjoint:
  "as_cirq_op (TGate_init (Some True)) qubit_manager [q0]
     = Inr (GateOperation cirq_T [q0], [''q'' \<mapsto> [q0]])
   \<and> as_cirq_op (TGate_init (Some True)) qubit_manager [q0]
     = as_cirq_op (TGate_init (Some False)) qubit_manager [q0]
   \<and> cirq_unitary cirq_T = TMATRIX
   \<and> cirq_unitary cirq_T \<noteq> ndarray_T (ndarray_conj TMATRIX)"
proof -
  have "cirq_unitary cirq_T \<noteq> ndarray_T (ndarray_conj TMATRIX)"
    using exp_quarter_neq by (simp add: TMATRIX_conj_T)
  moreover have "cirq_unitary cirq_T = TMATRIX"
    by (simp add: TMATRIX_def)
  ultimately show ?thesis
    by (simp add: as_cirq_op_def)
qed

end
